theory Spec2Isabelle
  imports Main
begin

section \<open>config.h of the ESP32 zoo chatbot\<close>

text \<open>
  The header \<^verbatim>\<open>src/zoo_esp32/config.h\<close> holds six global objects, about eighty
  object-like macros, one block of conditional compilation, three \<^verbatim>\<open>#if\<close> checks
  and three function-like logging macros. An object-like macro with a literal
  replacement list is embedded as a constant of the same name: integer literals as
  \<^typ>\<open>int\<close>, \<^verbatim>\<open>true\<close>/\<^verbatim>\<open>false\<close> as \<^typ>\<open>bool\<close>, string literals as
  \<^typ>\<open>string\<close>. All integer literals of the file lie far inside the 32-bit
  \<^verbatim>\<open>int\<close> of the target, and the only arithmetic is one division, so no
  wrap-around is modelled.
\<close>

subsection \<open>Network, server and device (lines 10-27)\<close>

definition WIFI_SSID :: string where
  "WIFI_SSID = ''YourWiFiName''"

definition WIFI_PASSWORD :: string where
  "WIFI_PASSWORD = ''YourWiFiPassword''"

definition SERVER_HOST :: string where
  "SERVER_HOST = ''100.88.240.42''"

definition WEBSOCKET_PORT :: int where
  "WEBSOCKET_PORT = 8000"

definition YOLO_PORT :: int where
  "YOLO_PORT = 5000"

definition DEVICE_ID :: string where
  "DEVICE_ID = ''esp32_zoo_001''"

subsection \<open>Hardware pins outside the camera block (lines 29-46)\<close>

definition SERVO_PIN :: int where
  "SERVO_PIN = 13"

definition PRESSURE_SENSOR_PIN :: int where
  "PRESSURE_SENSOR_PIN = 34"

definition PRESSURE_THRESHOLD :: int where
  "PRESSURE_THRESHOLD = 500"

definition I2S_MIC_WS :: int where
  "I2S_MIC_WS = 25"

definition I2S_MIC_SD :: int where
  "I2S_MIC_SD = 26"

definition I2S_MIC_SCK :: int where
  "I2S_MIC_SCK = 27"

definition I2S_SPK_WS :: int where
  "I2S_SPK_WS = 32"

definition I2S_SPK_SD :: int where
  "I2S_SPK_SD = 33"

definition I2S_SPK_SCK :: int where
  "I2S_SPK_SCK = 14"

subsection \<open>Audio (lines 48-58)\<close>

definition SAMPLE_RATE :: int where
  "SAMPLE_RATE = 16000"

definition CHANNELS :: int where
  "CHANNELS = 1"

definition BITS_PER_SAMPLE :: int where
  "BITS_PER_SAMPLE = 16"

definition RECORDING_DURATION_MS :: int where
  "RECORDING_DURATION_MS = 5000"

definition AUDIO_BUFFER_SIZE :: int where
  "AUDIO_BUFFER_SIZE = 4096"

definition AUDIO_CHUNK_SIZE :: int where
  "AUDIO_CHUNK_SIZE = 1024"

subsection \<open>Camera (lines 60-67)\<close>

definition CAMERA_FPS :: int where
  "CAMERA_FPS = 10"

text \<open>
  Division of two C++ \<^verbatim>\<open>int\<close>s: the quotient is truncated toward zero, and a zero
  divisor has no defined result (\<open>None\<close>).
\<close>

definition int_div :: "int \<Rightarrow> int \<Rightarrow> int option" where
  "int_div a b = (if b = 0 then None else Some (sgn a * sgn b * (\<bar>a\<bar> div \<bar>b\<bar>)))"

text \<open>
  \<^verbatim>\<open>#define CAMERA_INTERVAL_MS (1000 / CAMERA_FPS)\<close>: the replacement list is
  expanded where the macro is used, with the \<^verbatim>\<open>CAMERA_FPS\<close> of that point, so the
  quotient is a function of the frame rate; \<open>CAMERA_INTERVAL_MS\<close> is its value under
  the header's own \<^verbatim>\<open>CAMERA_FPS\<close>.
\<close>

definition CAMERA_INTERVAL_MS_at :: "int \<Rightarrow> int option" where
  "CAMERA_INTERVAL_MS_at camera_fps = int_div 1000 camera_fps"

definition CAMERA_INTERVAL_MS :: "int option" where
  "CAMERA_INTERVAL_MS = CAMERA_INTERVAL_MS_at CAMERA_FPS"

definition CAMERA_JPEG_QUALITY :: int where
  "CAMERA_JPEG_QUALITY = 12"

subsection \<open>System switches, debugging and timeouts (lines 73-94)\<close>

definition ENABLE_CAMERA_STREAMING :: bool where
  "ENABLE_CAMERA_STREAMING = True"

definition ENABLE_AUDIO_RECORDING :: bool where
  "ENABLE_AUDIO_RECORDING = True"

definition ENABLE_AUDIO_PLAYBACK :: bool where
  "ENABLE_AUDIO_PLAYBACK = True"

definition ENABLE_SERVO_ANIMATION :: bool where
  "ENABLE_SERVO_ANIMATION = True"

definition DEBUG_SERIAL :: bool where
  "DEBUG_SERIAL = True"

definition SERIAL_BAUD_RATE :: int where
  "SERIAL_BAUD_RATE = 115200"

definition WIFI_CONNECT_TIMEOUT :: int where
  "WIFI_CONNECT_TIMEOUT = 20000"

definition WEBSOCKET_CONNECT_TIMEOUT :: int where
  "WEBSOCKET_CONNECT_TIMEOUT = 10000"

definition STT_PROCESSING_TIMEOUT :: int where
  "STT_PROCESSING_TIMEOUT = 15000"

definition AI_RESPONSE_TIMEOUT :: int where
  "AI_RESPONSE_TIMEOUT = 30000"

definition HTTP_REQUEST_TIMEOUT :: int where
  "HTTP_REQUEST_TIMEOUT = 5000"

definition AUDIO_WS_PATH :: string where
  "AUDIO_WS_PATH = ''/ws/audio''"

definition TTS_WS_PATH :: string where
  "TTS_WS_PATH = ''/ws/tts''"

subsection \<open>Performance tuning (lines 96-111)\<close>

definition AUDIO_RECORD_TASK_PRIORITY :: int where
  "AUDIO_RECORD_TASK_PRIORITY = 2"

definition AUDIO_PLAYBACK_TASK_PRIORITY :: int where
  "AUDIO_PLAYBACK_TASK_PRIORITY = 2"

definition CAMERA_STREAM_TASK_PRIORITY :: int where
  "CAMERA_STREAM_TASK_PRIORITY = 1"

definition WEBSOCKET_TASK_PRIORITY :: int where
  "WEBSOCKET_TASK_PRIORITY = 1"

definition AUDIO_RECORD_TASK_STACK :: int where
  "AUDIO_RECORD_TASK_STACK = 8192"

definition AUDIO_PLAYBACK_TASK_STACK :: int where
  "AUDIO_PLAYBACK_TASK_STACK = 16384"

definition CAMERA_STREAM_TASK_STACK :: int where
  "CAMERA_STREAM_TASK_STACK = 16384"

definition USE_SPIRAM_FOR_AUDIO :: bool where
  "USE_SPIRAM_FOR_AUDIO = True"

subsection \<open>Servo animation, advanced settings and optional features (lines 113-149)\<close>

definition SERVO_CENTER_POS :: int where
  "SERVO_CENTER_POS = 90"

definition SERVO_LEFT_POS :: int where
  "SERVO_LEFT_POS = 60"

definition SERVO_RIGHT_POS :: int where
  "SERVO_RIGHT_POS = 120"

definition SERVO_ANIMATION_DELAY :: int where
  "SERVO_ANIMATION_DELAY = 300"

definition SERVO_ANIMATION_CYCLES :: int where
  "SERVO_ANIMATION_CYCLES = 3"

definition AUDIO_STREAM_CHUNK_SIZE :: int where
  "AUDIO_STREAM_CHUNK_SIZE = 8192"

definition AUDIO_STREAM_DELAY_MS :: int where
  "AUDIO_STREAM_DELAY_MS = 50"

definition WEBSOCKET_RECONNECT_INTERVAL :: int where
  "WEBSOCKET_RECONNECT_INTERVAL = 5000"

definition CAMERA_INIT_RETRIES :: int where
  "CAMERA_INIT_RETRIES = 3"

definition CAMERA_CAPTURE_TIMEOUT :: int where
  "CAMERA_CAPTURE_TIMEOUT = 5000"

definition AUDIO_PLAYBACK_QUEUE_SIZE :: int where
  "AUDIO_PLAYBACK_QUEUE_SIZE = 20"

definition SERVO_ON_DETECTION :: bool where
  "SERVO_ON_DETECTION = False"

definition VERBOSE_LOGGING :: bool where
  "VERBOSE_LOGGING = False"

definition DEBUG_MEMORY :: bool where
  "DEBUG_MEMORY = False"

subsection \<open>Camera model selection and pin map (lines 154-176)\<close>

text \<open>
  The pin macros of the camera are defined under \<^verbatim>\<open>#ifdef CAMERA_MODEL_AI_THINKER\<close>,
  so whether they exist depends on the preprocessor's macro table at that line. The
  table maps a macro name to its replacement list: empty (\<open>Blank\<close>) or one integer.
\<close>

datatype replacement = Blank | Number int

type_synonym macros = "string \<rightharpoonup> replacement"

definition define_macro :: "string \<Rightarrow> replacement \<Rightarrow> macros \<Rightarrow> macros" where
  "define_macro name body m = m(name \<mapsto> body)"

definition defined :: "macros \<Rightarrow> string \<Rightarrow> bool" where
  "defined m name = (m name \<noteq> None)"

text \<open>Line 155: \<^verbatim>\<open>#define CAMERA_MODEL_AI_THINKER\<close>, outside every conditional.\<close>

definition camera_model_selection :: "macros \<Rightarrow> macros" where
  "camera_model_selection m = define_macro ''CAMERA_MODEL_AI_THINKER'' Blank m"

text \<open>Lines 159-175, the sixteen definitions of the block in the order of the source.\<close>

definition AI_THINKER_pins :: "(string \<times> int) list" where
  "AI_THINKER_pins =
    [(''PWDN_GPIO_NUM'', 32),
     (''RESET_GPIO_NUM'', -1),
     (''XCLK_GPIO_NUM'', 0),
     (''SIOD_GPIO_NUM'', 26),
     (''SIOC_GPIO_NUM'', 27),
     (''Y9_GPIO_NUM'', 35),
     (''Y8_GPIO_NUM'', 34),
     (''Y7_GPIO_NUM'', 39),
     (''Y6_GPIO_NUM'', 36),
     (''Y5_GPIO_NUM'', 21),
     (''Y4_GPIO_NUM'', 19),
     (''Y3_GPIO_NUM'', 18),
     (''Y2_GPIO_NUM'', 5),
     (''VSYNC_GPIO_NUM'', 25),
     (''HREF_GPIO_NUM'', 23),
     (''PCLK_GPIO_NUM'', 22)]"

text \<open>Lines 158-176: the block is processed only when the model macro is defined.\<close>

definition camera_pin_definitions :: "macros \<Rightarrow> macros" where
  "camera_pin_definitions m =
    (if defined m ''CAMERA_MODEL_AI_THINKER''
     then fold (\<lambda>(name, pin). define_macro name (Number pin)) AI_THINKER_pins m
     else m)"

text \<open>
  Lines 155-176 as one step on the macro table. The include guard of lines 7-8 has the
  body of the header processed once in a translation unit; \<open>m\<close> is the table that
  one processing finds at line 155.
\<close>

definition camera_section :: "macros \<Rightarrow> macros" where
  "camera_section m = camera_pin_definitions (camera_model_selection m)"

text \<open>
  The camera pins a translation unit sees after the header: the names of the block
  that are defined as a number, with that number, when the table before line 155 is
  \<open>m\<close>.
\<close>

definition camera_pins :: "macros \<Rightarrow> (string \<times> int) list" where
  "camera_pins m =
    concat (map (\<lambda>name. case camera_section m name of
                           Some (Number pin) \<Rightarrow> [(name, pin)]
                         | Some Blank \<Rightarrow> []
                         | None \<Rightarrow> [])
                (map fst AI_THINKER_pins))"

subsection \<open>Pins that name a GPIO\<close>

text \<open>The eight pin macros of lines 32-46, by name.\<close>

definition peripheral_pins :: "(string \<times> int) list" where
  "peripheral_pins =
    [(''SERVO_PIN'', SERVO_PIN),
     (''PRESSURE_SENSOR_PIN'', PRESSURE_SENSOR_PIN),
     (''I2S_MIC_WS'', I2S_MIC_WS),
     (''I2S_MIC_SD'', I2S_MIC_SD),
     (''I2S_MIC_SCK'', I2S_MIC_SCK),
     (''I2S_SPK_WS'', I2S_SPK_WS),
     (''I2S_SPK_SD'', I2S_SPK_SD),
     (''I2S_SPK_SCK'', I2S_SPK_SCK)]"

text \<open>
  The camera pins that are wired: \<^verbatim>\<open>RESET_GPIO_NUM\<close> is \<open>-1\<close>, which is no GPIO.
\<close>

definition connected_camera_pins :: "(string \<times> int) list" where
  "connected_camera_pins = filter (\<lambda>(name, pin). 0 \<le> pin) (camera_pins Map.empty)"

definition exclusive_pins :: "(string \<times> int) list" where
  "exclusive_pins = peripheral_pins @ connected_camera_pins"

text \<open>The pairs (peripheral macro, camera macro) that name the same GPIO.\<close>

definition shared_pins :: "(string \<times> string) list" where
  "shared_pins =
    [(p, c). (p, gpio) \<leftarrow> peripheral_pins, (c, gpio') \<leftarrow> connected_camera_pins,
             gpio' = gpio]"

subsection \<open>Validation of the configuration (lines 178-189)\<close>

text \<open>
  The preprocessor reports a diagnostic for a \<^verbatim>\<open>#warning\<close> and goes on; an
  \<^verbatim>\<open>#error\<close> stops the translation. The conditions of the three \<^verbatim>\<open>#if\<close>s only
  compare a macro's value with literals, so they are functions of that value.
\<close>

datatype diagnostic = Warning string | Error string

definition sample_rate_condition :: "int \<Rightarrow> bool" where
  "sample_rate_condition sample_rate = (sample_rate \<noteq> 16000 \<and> sample_rate \<noteq> 44100)"

definition camera_fps_condition :: "int \<Rightarrow> bool" where
  "camera_fps_condition camera_fps = (camera_fps > 30)"

definition recording_duration_condition :: "int \<Rightarrow> bool" where
  "recording_duration_condition recording_duration_ms = (recording_duration_ms > 10000)"

definition sample_rate_warning :: diagnostic where
  "sample_rate_warning =
    Warning ''Sample rate should be 16000 or 44100 for best compatibility''"

definition camera_fps_warning :: diagnostic where
  "camera_fps_warning = Warning ''Camera FPS > 30 may cause performance issues''"

definition recording_duration_warning :: diagnostic where
  "recording_duration_warning =
    Warning ''Recording duration > 10 seconds may cause memory issues''"

text \<open>
  The diagnostics of lines 179-189, in order, when the three macros have the given
  values.
\<close>

definition validate_configuration :: "int \<Rightarrow> int \<Rightarrow> int \<Rightarrow> diagnostic list" where
  "validate_configuration sample_rate camera_fps recording_duration_ms =
    (if sample_rate_condition sample_rate then [sample_rate_warning] else [])
    @ (if camera_fps_condition camera_fps then [camera_fps_warning] else [])
    @ (if recording_duration_condition recording_duration_ms
       then [recording_duration_warning] else [])"

fun is_error :: "diagnostic \<Rightarrow> bool" where
  "is_error (Error text) = True"
| "is_error (Warning text) = False"

definition compilation_blocked :: "diagnostic list \<Rightarrow> bool" where
  "compilation_blocked ds = list_ex is_error ds"

subsection \<open>Logging macros (lines 191-194)\<close>

text \<open>
  \<^verbatim>\<open>Serial\<close> is modelled by the lines printed so far. The two guarded macros read
  \<^verbatim>\<open>DEBUG_SERIAL\<close> and \<^verbatim>\<open>VERBOSE_LOGGING\<close> where they are expanded; the switches are
  passed as a record, and \<open>configured_switches\<close> holds the header's own values. The
  message is a string, on which \<^verbatim>\<open>String(msg)\<close> is the identity.
\<close>

type_synonym serial = "string list"

definition Serial_println :: "string \<Rightarrow> serial \<Rightarrow> serial" where
  "Serial_println line out = out @ [line]"

record switches =
  debug_serial :: bool
  verbose_logging :: bool

definition configured_switches :: switches where
  "configured_switches = \<lparr>debug_serial = DEBUG_SERIAL, verbose_logging = VERBOSE_LOGGING\<rparr>"

definition LOG_INFO :: "switches \<Rightarrow> string \<Rightarrow> serial \<Rightarrow> serial" where
  "LOG_INFO sw msg out = (if debug_serial sw then Serial_println msg out else out)"

definition LOG_DEBUG :: "switches \<Rightarrow> string \<Rightarrow> serial \<Rightarrow> serial" where
  "LOG_DEBUG sw msg out = (if verbose_logging sw then Serial_println msg out else out)"

text \<open>
  The prefix of \<^verbatim>\<open>LOG_ERROR\<close>: the three UTF-8 bytes of the cross mark U+274C, then
  \<^verbatim>\<open> ERROR: \<close>. The macro is expanded under the same switches as the other two; its
  replacement list names none of them.
\<close>

definition error_prefix :: string where
  "error_prefix = CHR 0xE2 # CHR 0x9D # CHR 0x8C # '' ERROR: ''"

definition LOG_ERROR :: "switches \<Rightarrow> string \<Rightarrow> serial \<Rightarrow> serial" where
  "LOG_ERROR sw msg out = Serial_println (error_prefix @ msg) out"

subsection \<open>The global objects and their types (lines 12-27)\<close>

text \<open>
  Six names of the header are objects, not macros. Their declared types decide what a
  translation unit that includes the header may assign at run time: in
  \<^verbatim>\<open>const int X\<close> the object itself is \<^verbatim>\<open>const\<close>; in \<^verbatim>\<open>const char* X\<close> the
  characters pointed to are \<^verbatim>\<open>const\<close> and the pointer \<^verbatim>\<open>X\<close> is not.
\<close>

datatype cv = Const | NonConst

datatype ctype = IntT cv | CharT cv | PointerT cv ctype

datatype cvalue = IntV int | StrV string

record global =
  gname :: string
  gtype :: ctype
  gvalue :: cvalue

definition globals :: "global list" where
  "globals =
    [\<lparr>gname = ''WIFI_SSID'', gtype = PointerT NonConst (CharT Const), gvalue = StrV WIFI_SSID\<rparr>,
     \<lparr>gname = ''WIFI_PASSWORD'', gtype = PointerT NonConst (CharT Const),
      gvalue = StrV WIFI_PASSWORD\<rparr>,
     \<lparr>gname = ''SERVER_HOST'', gtype = PointerT NonConst (CharT Const),
      gvalue = StrV SERVER_HOST\<rparr>,
     \<lparr>gname = ''WEBSOCKET_PORT'', gtype = IntT Const, gvalue = IntV WEBSOCKET_PORT\<rparr>,
     \<lparr>gname = ''YOLO_PORT'', gtype = IntT Const, gvalue = IntV YOLO_PORT\<rparr>,
     \<lparr>gname = ''DEVICE_ID'', gtype = PointerT NonConst (CharT Const), gvalue = StrV DEVICE_ID\<rparr>]"

text \<open>The qualifier of the object itself (not of what a pointer points to).\<close>

fun qualifier :: "ctype \<Rightarrow> cv" where
  "qualifier (IntT q) = q"
| "qualifier (CharT q) = q"
| "qualifier (PointerT q t) = q"

text \<open>
  A value fits a type: an integer an \<^verbatim>\<open>int\<close>, a string literal a pointer to
  \<^verbatim>\<open>const char\<close>.
\<close>

fun fits :: "cvalue \<Rightarrow> ctype \<Rightarrow> bool" where
  "fits (IntV i) (IntT q) = True"
| "fits (StrV s) (PointerT q (CharT Const)) = True"
| "fits v t = False"

datatype assign_error = Undeclared | Read_only | Type_mismatch

text \<open>
  The assignment \<^verbatim>\<open>x = v;\<close> in a function of a translation unit that includes the
  header: rejected by the compiler for an unknown name, a \<^verbatim>\<open>const\<close> object or a
  value of another type, and otherwise an update of the object.
\<close>

fun assign :: "string \<Rightarrow> cvalue \<Rightarrow> global list \<Rightarrow> assign_error + global list" where
  "assign x v [] = Inl Undeclared"
| "assign x v (g # gs) =
    (if gname g = x then
       (if qualifier (gtype g) = Const then Inl Read_only
        else if \<not> fits v (gtype g) then Inl Type_mismatch
        else Inr (g\<lparr>gvalue := v\<rparr> # gs))
     else (case assign x v gs of
             Inl e \<Rightarrow> Inl e
           | Inr gs' \<Rightarrow> Inr (g # gs')))"

fun value_of :: "string \<Rightarrow> global list \<Rightarrow> cvalue option" where
  "value_of x [] = None"
| "value_of x (g # gs) = (if gname g = x then Some (gvalue g) else value_of x gs)"

section \<open>Numerical facts of the constants\<close>

text \<open>
  C6: every timeout constant (\<open>WIFI_CONNECT_TIMEOUT\<close>, \<open>WEBSOCKET_CONNECT_TIMEOUT\<close>,
  \<open>STT_PROCESSING_TIMEOUT\<close>, \<open>AI_RESPONSE_TIMEOUT\<close>, \<open>HTTP_REQUEST_TIMEOUT\<close>,
  \<open>WEBSOCKET_RECONNECT_INTERVAL\<close>, \<open>CAMERA_CAPTURE_TIMEOUT\<close>) and every buffer-size
  constant (\<open>AUDIO_BUFFER_SIZE\<close>, \<open>AUDIO_CHUNK_SIZE\<close>, \<open>AUDIO_STREAM_CHUNK_SIZE\<close>, the
  three task stacks, \<open>AUDIO_PLAYBACK_QUEUE_SIZE\<close>) is strictly positive.
\<close>

theorem timeouts_and_buffer_sizes_positive:
  "0 < WIFI_CONNECT_TIMEOUT \<and> 0 < WEBSOCKET_CONNECT_TIMEOUT \<and> 0 < STT_PROCESSING_TIMEOUT
   \<and> 0 < AI_RESPONSE_TIMEOUT \<and> 0 < HTTP_REQUEST_TIMEOUT
   \<and> 0 < WEBSOCKET_RECONNECT_INTERVAL \<and> 0 < CAMERA_CAPTURE_TIMEOUT
   \<and> 0 < AUDIO_BUFFER_SIZE \<and> 0 < AUDIO_CHUNK_SIZE \<and> 0 < AUDIO_STREAM_CHUNK_SIZE
   \<and> 0 < AUDIO_RECORD_TASK_STACK \<and> 0 < AUDIO_PLAYBACK_TASK_STACK
   \<and> 0 < CAMERA_STREAM_TASK_STACK \<and> 0 < AUDIO_PLAYBACK_QUEUE_SIZE"
  by (simp add: WIFI_CONNECT_TIMEOUT_def WEBSOCKET_CONNECT_TIMEOUT_def
      STT_PROCESSING_TIMEOUT_def AI_RESPONSE_TIMEOUT_def HTTP_REQUEST_TIMEOUT_def
      WEBSOCKET_RECONNECT_INTERVAL_def CAMERA_CAPTURE_TIMEOUT_def AUDIO_BUFFER_SIZE_def
      AUDIO_CHUNK_SIZE_def AUDIO_STREAM_CHUNK_SIZE_def AUDIO_RECORD_TASK_STACK_def
      AUDIO_PLAYBACK_TASK_STACK_def CAMERA_STREAM_TASK_STACK_def
      AUDIO_PLAYBACK_QUEUE_SIZE_def)

text \<open>
  C10: both audio task priorities (\<open>AUDIO_RECORD_TASK_PRIORITY = 2\<close>,
  \<open>AUDIO_PLAYBACK_TASK_PRIORITY = 2\<close>) are strictly greater than both
  \<open>CAMERA_STREAM_TASK_PRIORITY = 1\<close> and \<open>WEBSOCKET_TASK_PRIORITY = 1\<close>.
\<close>

theorem audio_priorities_above_camera_and_websocket:
  "AUDIO_RECORD_TASK_PRIORITY = 2 \<and> AUDIO_PLAYBACK_TASK_PRIORITY = 2
   \<and> CAMERA_STREAM_TASK_PRIORITY = 1 \<and> WEBSOCKET_TASK_PRIORITY = 1
   \<and> CAMERA_STREAM_TASK_PRIORITY < AUDIO_RECORD_TASK_PRIORITY
   \<and> WEBSOCKET_TASK_PRIORITY < AUDIO_RECORD_TASK_PRIORITY
   \<and> CAMERA_STREAM_TASK_PRIORITY < AUDIO_PLAYBACK_TASK_PRIORITY
   \<and> WEBSOCKET_TASK_PRIORITY < AUDIO_PLAYBACK_TASK_PRIORITY"
  by (simp add: AUDIO_RECORD_TASK_PRIORITY_def AUDIO_PLAYBACK_TASK_PRIORITY_def
      CAMERA_STREAM_TASK_PRIORITY_def WEBSOCKET_TASK_PRIORITY_def)

text \<open>
  C9: \<open>CAMERA_INTERVAL_MS\<close> is the integer quotient \<open>1000 / CAMERA_FPS\<close>; the
  configured \<open>CAMERA_FPS = 10\<close> is strictly positive, so the quotient is defined; it
  is exactly \<open>100\<close>, and \<open>CAMERA_INTERVAL_MS * CAMERA_FPS = 1000\<close>.
\<close>

theorem camera_interval_is_100:
  "CAMERA_INTERVAL_MS = int_div 1000 CAMERA_FPS \<and> CAMERA_FPS = 10 \<and> 0 < CAMERA_FPS
   \<and> CAMERA_INTERVAL_MS = Some 100
   \<and> map_option (\<lambda>interval. interval * CAMERA_FPS) CAMERA_INTERVAL_MS = Some 1000"
  by (simp add: CAMERA_INTERVAL_MS_def CAMERA_INTERVAL_MS_at_def CAMERA_FPS_def int_div_def)

text \<open>
  C7: object detection is served on a port of its own (\<open>YOLO_PORT = 5000\<close>,
  \<open>WEBSOCKET_PORT = 8000\<close>, the two differ), and the WebSocket endpoint has two
  distinct, non-empty path suffixes: \<open>AUDIO_WS_PATH = "/ws/audio"\<close> and
  \<open>TTS_WS_PATH = "/ws/tts"\<close>.
\<close>

theorem ports_and_websocket_paths:
  "YOLO_PORT = 5000 \<and> WEBSOCKET_PORT = 8000 \<and> YOLO_PORT \<noteq> WEBSOCKET_PORT
   \<and> AUDIO_WS_PATH = ''/ws/audio'' \<and> TTS_WS_PATH = ''/ws/tts''
   \<and> AUDIO_WS_PATH \<noteq> TTS_WS_PATH \<and> AUDIO_WS_PATH \<noteq> [] \<and> TTS_WS_PATH \<noteq> []"
  by (simp add: YOLO_PORT_def WEBSOCKET_PORT_def AUDIO_WS_PATH_def TTS_WS_PATH_def)

section \<open>Conditional compilation of the camera pin map\<close>

lemmas camera_defs = camera_section_def camera_pin_definitions_def
  camera_model_selection_def defined_def define_macro_def AI_THINKER_pins_def

lemma camera_pins_any_table: "camera_pins m = AI_THINKER_pins"
  by (simp add: camera_pins_def camera_defs)

lemma connected_camera_pins_eq:
  "connected_camera_pins =
    [(''PWDN_GPIO_NUM'', 32), (''XCLK_GPIO_NUM'', 0), (''SIOD_GPIO_NUM'', 26),
     (''SIOC_GPIO_NUM'', 27), (''Y9_GPIO_NUM'', 35), (''Y8_GPIO_NUM'', 34),
     (''Y7_GPIO_NUM'', 39), (''Y6_GPIO_NUM'', 36), (''Y5_GPIO_NUM'', 21),
     (''Y4_GPIO_NUM'', 19), (''Y3_GPIO_NUM'', 18), (''Y2_GPIO_NUM'', 5),
     (''VSYNC_GPIO_NUM'', 25), (''HREF_GPIO_NUM'', 23), (''PCLK_GPIO_NUM'', 22)]"
  by (simp add: connected_camera_pins_def camera_pins_any_table AI_THINKER_pins_def)

text \<open>
  C8: \<open>CAMERA_MODEL_AI_THINKER\<close> is defined unconditionally, so whatever the macro
  table was before, the guard of the \<^verbatim>\<open>#ifdef\<close> block holds and the sixteen camera
  pin macros are defined with the AI-Thinker values: \<open>PWDN = 32\<close>, \<open>RESET = -1\<close>,
  \<open>XCLK = 0\<close>, \<open>SIOD = 26\<close>, \<open>SIOC = 27\<close>, \<open>Y9 = 35\<close>, \<open>Y8 = 34\<close>, \<open>Y7 = 39\<close>,
  \<open>Y6 = 36\<close>, \<open>Y5 = 21\<close>, \<open>Y4 = 19\<close>, \<open>Y3 = 18\<close>, \<open>Y2 = 5\<close>, \<open>VSYNC = 25\<close>,
  \<open>HREF = 23\<close>, \<open>PCLK = 22\<close>; these sixteen are the whole pin map.
\<close>

theorem camera_pin_map_always_ai_thinker:
  "defined (camera_model_selection m) ''CAMERA_MODEL_AI_THINKER''
   \<and> camera_section m ''PWDN_GPIO_NUM'' = Some (Number 32)
   \<and> camera_section m ''RESET_GPIO_NUM'' = Some (Number (- 1))
   \<and> camera_section m ''XCLK_GPIO_NUM'' = Some (Number 0)
   \<and> camera_section m ''SIOD_GPIO_NUM'' = Some (Number 26)
   \<and> camera_section m ''SIOC_GPIO_NUM'' = Some (Number 27)
   \<and> camera_section m ''Y9_GPIO_NUM'' = Some (Number 35)
   \<and> camera_section m ''Y8_GPIO_NUM'' = Some (Number 34)
   \<and> camera_section m ''Y7_GPIO_NUM'' = Some (Number 39)
   \<and> camera_section m ''Y6_GPIO_NUM'' = Some (Number 36)
   \<and> camera_section m ''Y5_GPIO_NUM'' = Some (Number 21)
   \<and> camera_section m ''Y4_GPIO_NUM'' = Some (Number 19)
   \<and> camera_section m ''Y3_GPIO_NUM'' = Some (Number 18)
   \<and> camera_section m ''Y2_GPIO_NUM'' = Some (Number 5)
   \<and> camera_section m ''VSYNC_GPIO_NUM'' = Some (Number 25)
   \<and> camera_section m ''HREF_GPIO_NUM'' = Some (Number 23)
   \<and> camera_section m ''PCLK_GPIO_NUM'' = Some (Number 22)
   \<and> length (camera_pins m) = 16"
  by (simp add: camera_pins_any_table) (simp add: camera_defs)

section \<open>GPIO numbers of the pin macros\<close>

lemmas peripheral_defs = peripheral_pins_def SERVO_PIN_def PRESSURE_SENSOR_PIN_def
  I2S_MIC_WS_def I2S_MIC_SD_def I2S_MIC_SCK_def I2S_SPK_WS_def I2S_SPK_SD_def
  I2S_SPK_SCK_def

text \<open>
  C1: the pin macros that bind functions needing a GPIO of their own should name
  pairwise distinct GPIO numbers. The header does not meet this. With camera
  streaming, audio recording and audio playback all enabled (lines 76-78), the GPIO
  numbers of the eight peripheral pins and the fifteen connected camera pins are not
  pairwise distinct: GPIO 34 is \<open>PRESSURE_SENSOR_PIN\<close> and \<open>Y8\<close>, 25 is \<open>I2S_MIC_WS\<close>
  and \<open>VSYNC\<close>, 26 is \<open>I2S_MIC_SD\<close> and \<open>SIOD\<close>, 27 is \<open>I2S_MIC_SCK\<close> and \<open>SIOC\<close>,
  32 is \<open>I2S_SPK_WS\<close> and \<open>PWDN\<close>.
\<close>

theorem exclusive_pins_not_distinct:
  "ENABLE_CAMERA_STREAMING \<and> ENABLE_AUDIO_RECORDING \<and> ENABLE_AUDIO_PLAYBACK
   \<and> \<not> distinct (map snd exclusive_pins)
   \<and> shared_pins =
        [(''PRESSURE_SENSOR_PIN'', ''Y8_GPIO_NUM''),
         (''I2S_MIC_WS'', ''VSYNC_GPIO_NUM''),
         (''I2S_MIC_SD'', ''SIOD_GPIO_NUM''),
         (''I2S_MIC_SCK'', ''SIOC_GPIO_NUM''),
         (''I2S_SPK_WS'', ''PWDN_GPIO_NUM'')]"
  by (simp add: ENABLE_CAMERA_STREAMING_def ENABLE_AUDIO_RECORDING_def
      ENABLE_AUDIO_PLAYBACK_def exclusive_pins_def shared_pins_def
      connected_camera_pins_eq peripheral_defs)

section \<open>The checks of the configuration\<close>

lemmas validation_defs = validate_configuration_def sample_rate_condition_def
  camera_fps_condition_def recording_duration_condition_def sample_rate_warning_def
  camera_fps_warning_def recording_duration_warning_def compilation_blocked_def

text \<open>
  C4: the header has exactly three \<^verbatim>\<open>#warning\<close> diagnostics, one for the sample
  rate, one for the camera frame rate and one for the recording duration. Each is
  reported exactly when its condition holds, nothing else is ever reported, and no
  values of the three macros block the compilation: no \<^verbatim>\<open>#error\<close> is reachable.
\<close>

theorem validation_warnings_are_advisory:
  "\<not> compilation_blocked (validate_configuration sr fps dur)
   \<and> (sample_rate_warning \<in> set (validate_configuration sr fps dur))
       = sample_rate_condition sr
   \<and> (camera_fps_warning \<in> set (validate_configuration sr fps dur))
       = camera_fps_condition fps
   \<and> (recording_duration_warning \<in> set (validate_configuration sr fps dur))
       = recording_duration_condition dur
   \<and> set (validate_configuration sr fps dur)
       \<subseteq> {sample_rate_warning, camera_fps_warning, recording_duration_warning}
   \<and> distinct [sample_rate_warning, camera_fps_warning, recording_duration_warning]
   \<and> length (validate_configuration sr fps dur) \<le> 3
   \<and> validate_configuration 22050 45 20000
       = [sample_rate_warning, camera_fps_warning, recording_duration_warning]"
  by (simp add: validation_defs)

text \<open>
  C5: the three \<^verbatim>\<open>#warning\<close>s are reported exactly for values out of range. For
  all values of the three macros, the sample-rate warning is reported if and only if
  the rate is neither \<open>16000\<close> nor \<open>44100\<close>, the frame-rate warning if and only if
  \<open>CAMERA_FPS > 30\<close>, and the duration warning if and only if
  \<open>RECORDING_DURATION_MS > 10000\<close>. So the sample-rate condition holds and its warning
  is reported at \<open>SAMPLE_RATE = 22050\<close>, the frame-rate condition and warning at
  \<open>CAMERA_FPS = 45\<close>, the duration condition and warning at every
  \<open>RECORDING_DURATION_MS > 10000\<close>; the in-range values \<open>44100\<close>, \<open>30\<close> and \<open>10000\<close>
  report nothing; and under the configured values (\<open>16000\<close>, \<open>10\<close>, \<open>5000\<close>) none of
  the three conditions holds and the header reports nothing.
\<close>

theorem warning_conditions_trigger_out_of_range:
  "sample_rate_condition 22050 \<and> camera_fps_condition 45
   \<and> (\<forall>d. 10000 < d \<longrightarrow> recording_duration_condition d)
   \<and> SAMPLE_RATE = 16000 \<and> CAMERA_FPS = 10 \<and> RECORDING_DURATION_MS = 5000
   \<and> \<not> sample_rate_condition SAMPLE_RATE \<and> \<not> camera_fps_condition CAMERA_FPS
   \<and> \<not> recording_duration_condition RECORDING_DURATION_MS
   \<and> validate_configuration SAMPLE_RATE CAMERA_FPS RECORDING_DURATION_MS = []
   \<and> sample_rate_condition sr = (sr \<noteq> 16000 \<and> sr \<noteq> 44100)
   \<and> camera_fps_condition fps = (30 < fps)
   \<and> recording_duration_condition dur = (10000 < dur)
   \<and> (sample_rate_warning \<in> set (validate_configuration sr fps dur))
       = (sr \<noteq> 16000 \<and> sr \<noteq> 44100)
   \<and> (camera_fps_warning \<in> set (validate_configuration sr fps dur)) = (30 < fps)
   \<and> (recording_duration_warning \<in> set (validate_configuration sr fps dur))
       = (10000 < dur)
   \<and> validate_configuration 22050 CAMERA_FPS RECORDING_DURATION_MS
       = [Warning ''Sample rate should be 16000 or 44100 for best compatibility'']
   \<and> validate_configuration SAMPLE_RATE 45 RECORDING_DURATION_MS
       = [Warning ''Camera FPS > 30 may cause performance issues'']
   \<and> (\<forall>d. 10000 < d \<longrightarrow>
         validate_configuration SAMPLE_RATE CAMERA_FPS d
           = [Warning ''Recording duration > 10 seconds may cause memory issues''])
   \<and> validate_configuration 44100 30 10000 = []"
  by (simp add: validation_defs SAMPLE_RATE_def CAMERA_FPS_def RECORDING_DURATION_MS_def)

theorem warning_conditions_trigger_witness:
  "(10000::int) < 20000 \<and> recording_duration_condition 20000
   \<and> validate_configuration SAMPLE_RATE CAMERA_FPS 20000
       = [Warning ''Recording duration > 10 seconds may cause memory issues'']"
proof -
  have "\<forall>d. 10000 < d \<longrightarrow> recording_duration_condition d"
    and "\<forall>d. 10000 < d \<longrightarrow>
           validate_configuration SAMPLE_RATE CAMERA_FPS d
             = [Warning ''Recording duration > 10 seconds may cause memory issues'']"
    using warning_conditions_trigger_out_of_range by blast+
  then show ?thesis by simp
qed

section \<open>The logging macros\<close>

lemmas logging_defs = LOG_INFO_def LOG_DEBUG_def LOG_ERROR_def Serial_println_def

text \<open>
  C2, as the specification states it, fails for \<open>LOG_ERROR\<close>: with both switches off
  \<open>LOG_INFO\<close> and \<open>LOG_DEBUG\<close> print nothing, and \<open>LOG_ERROR\<close> still prints a line.
\<close>

theorem log_error_prints_with_switches_off:
  "LOG_ERROR \<lparr>debug_serial = False, verbose_logging = False\<rparr> ''boom'' []
     = [error_prefix @ ''boom'']
   \<and> LOG_INFO \<lparr>debug_serial = False, verbose_logging = False\<rparr> ''boom'' [] = []
   \<and> LOG_DEBUG \<lparr>debug_serial = False, verbose_logging = False\<rparr> ''boom'' [] = []"
  by (simp add: logging_defs)

text \<open>
  C2, amended: for every message, \<open>LOG_INFO\<close> prints the message if and only if
  \<open>DEBUG_SERIAL\<close> is true and \<open>LOG_DEBUG\<close> prints it if and only if \<open>VERBOSE_LOGGING\<close>
  is true; \<open>LOG_ERROR\<close> reads no switch and always prints the message behind its
  error prefix. Under the header's own switches \<open>LOG_INFO\<close> prints and \<open>LOG_DEBUG\<close>
  does not.
\<close>

theorem logging_macros_behaviour:
  "LOG_INFO sw msg out = (if debug_serial sw then out @ [msg] else out)
   \<and> LOG_DEBUG sw msg out = (if verbose_logging sw then out @ [msg] else out)
   \<and> LOG_ERROR sw msg out = out @ [error_prefix @ msg]
   \<and> (LOG_INFO sw msg out \<noteq> out) = debug_serial sw
   \<and> (LOG_DEBUG sw msg out \<noteq> out) = verbose_logging sw
   \<and> LOG_ERROR sw msg out \<noteq> out
   \<and> LOG_INFO configured_switches msg out = out @ [msg]
   \<and> LOG_DEBUG configured_switches msg out = out"
  by (simp add: logging_defs configured_switches_def DEBUG_SERIAL_def VERBOSE_LOGGING_def)

section \<open>The global objects\<close>

lemmas global_defs = globals_def WIFI_SSID_def WIFI_PASSWORD_def SERVER_HOST_def
  WEBSOCKET_PORT_def YOLO_PORT_def DEVICE_ID_def

text \<open>
  C3, as the specification states it, fails for the four \<^verbatim>\<open>const char*\<close> objects:
  the assignment of another string to \<open>WIFI_SSID\<close> is accepted and changes its value.
\<close>

theorem wifi_ssid_can_be_reassigned:
  "value_of ''WIFI_SSID'' globals = Some (StrV ''YourWiFiName'')
   \<and> map_sum id (value_of ''WIFI_SSID'')
         (assign ''WIFI_SSID'' (StrV ''OtherNetwork'') globals)
       = Inr (Some (StrV ''OtherNetwork''))"
  by (simp add: global_defs)

text \<open>
  C3, amended: the header declares six objects. \<open>WEBSOCKET_PORT\<close> and \<open>YOLO_PORT\<close> are
  \<^verbatim>\<open>const int\<close>: every assignment to them is rejected. \<open>WIFI_SSID\<close>,
  \<open>WIFI_PASSWORD\<close>, \<open>SERVER_HOST\<close> and \<open>DEVICE_ID\<close> are non-\<^verbatim>\<open>const\<close> pointers to
  \<^verbatim>\<open>const char\<close>: the characters are immutable, and the pointer can be given
  another string at run time.
\<close>

theorem only_the_ports_are_immutable:
  "map gname globals =
     [''WIFI_SSID'', ''WIFI_PASSWORD'', ''SERVER_HOST'', ''WEBSOCKET_PORT'', ''YOLO_PORT'',
      ''DEVICE_ID'']
   \<and> assign ''WEBSOCKET_PORT'' v globals = Inl Read_only
   \<and> assign ''YOLO_PORT'' v globals = Inl Read_only
   \<and> map_sum id (value_of ''WIFI_SSID'') (assign ''WIFI_SSID'' (StrV s) globals)
       = Inr (Some (StrV s))
   \<and> map_sum id (value_of ''WIFI_PASSWORD'') (assign ''WIFI_PASSWORD'' (StrV s) globals)
       = Inr (Some (StrV s))
   \<and> map_sum id (value_of ''SERVER_HOST'') (assign ''SERVER_HOST'' (StrV s) globals)
       = Inr (Some (StrV s))
   \<and> map_sum id (value_of ''DEVICE_ID'') (assign ''DEVICE_ID'' (StrV s) globals)
       = Inr (Some (StrV s))
   \<and> map (\<lambda>g. qualifier (gtype g)) globals
       = [NonConst, NonConst, NonConst, Const, Const, NonConst]"
  by (simp add: global_defs)

end
